theory Spec2Isabelle
  imports Main
begin

section \<open>Values, errors and the observable world\<close>

text \<open>
  The repository holds two Flask prototypes of a contact-form backend and one Lambda
  hook. Their inputs are JSON events and HTTP form posts; what they do besides returning
  is printing to the console. The only storage call of the repository, a \<open>put_item\<close> on
  a DynamoDB table, stands in commented-out lines of the first prototype and is never
  run.
\<close>

text \<open>A JSON value as Python holds it after decoding. An object keeps its pairs as an
  association list; a key is looked up with \<open>map_of\<close>. Numbers are kept as integers,
  no handler of the repository reads one.\<close>

datatype json =
    JNull
  | JBool bool
  | JNum int
  | JStr string
  | JArr "json list"
  | JObj "(string \<times> json) list"

text \<open>The exceptions the handlers can leave with. \<open>BadRequestKeyError\<close> is what
  \<open>request.form[k]\<close> raises for an absent key; \<open>NotFound\<close> and \<open>MethodNotAllowed\<close>
  are the answers of the route table. \<open>Exception\<close> carries the message of a plain
  \<open>raise Exception(msg)\<close>.\<close>

datatype error =
    KeyError string
  | TypeError
  | AttributeError
  | IndexError
  | Exception string
  | BadRequestKeyError string
  | NotFound
  | MethodNotAllowed

text \<open>The HTTP status that werkzeug attaches to its HTTP exception classes; the other
  exceptions are not HTTP exceptions and carry none.\<close>

fun code :: "error \<Rightarrow> nat option" where
  "code (BadRequestKeyError k) = Some 400"
| "code NotFound = Some 404"
| "code MethodNotAllowed = Some 405"
| "code e = None"

text \<open>One argument of a \<open>print\<close> call: a string, or the text \<open>json.dumps\<close> yields for a
  value (kept symbolic). A console line is the list of the arguments of one call.\<close>

datatype printed = Lit string | JsonDumps json

text \<open>The item of a storage call: attribute names with their values, \<open>None\<close> for a
  field the form did not have.\<close>

type_synonym item = "(string \<times> string option) list"

text \<open>What a handler leaves behind: the console lines printed so far and the storage
  calls made so far, each with the name of its table. No handler that runs adds to the
  second; it is there so that "no storage call is made" can be said.\<close>

record world =
  console :: "printed list list"
  put_calls :: "(string \<times> item) list"

definition print :: "printed list \<Rightarrow> world \<Rightarrow> world" where
  "print args w = w\<lparr>console := console w @ [args]\<rparr>"

section \<open>The pre-signup hook (first attempt, pre-signup.py)\<close>

text \<open>\<open>v[k]\<close> on a decoded JSON value: a dict gives the value or \<open>KeyError\<close>, anything
  else is not subscriptable by a string.\<close>

definition getitem :: "json \<Rightarrow> string \<Rightarrow> error + json" where
  "getitem v k =
     (case v of
        JObj kvs \<Rightarrow> (case map_of kvs k of None \<Rightarrow> Inl (KeyError k) | Some x \<Rightarrow> Inr x)
      | _ \<Rightarrow> Inl TypeError)"

text \<open>\<open>s.split(c)\<close> for a one-character separator: every occurrence of \<open>c\<close> ends a
  piece, empty pieces are kept, and a string without \<open>c\<close> is one piece.\<close>

fun split :: "char \<Rightarrow> string \<Rightarrow> string list" where
  "split c [] = [[]]"
| "split c (x # xs) =
     (if x = c then [] # split c xs
      else (case split c xs of [] \<Rightarrow> [[x]] | p # ps \<Rightarrow> (x # p) # ps))"

text \<open>\<open>email.split(c)\<close> on a JSON value: only a string has the method.\<close>

definition split_value :: "json \<Rightarrow> char \<Rightarrow> error + string list" where
  "split_value v c = (case v of JStr s \<Rightarrow> Inr (split c s) | _ \<Rightarrow> Inl AttributeError)"

text \<open>\<open>xs[i]\<close> for a non-negative index.\<close>

definition index_list :: "'a list \<Rightarrow> nat \<Rightarrow> error + 'a" where
  "index_list xs i = (if i < length xs then Inr (xs ! i) else Inl IndexError)"

definition allowed_domains :: "string list" where
  "allowed_domains = [''example.com'', ''connectingthedots.com'']"

definition invalid_domain_message :: string where
  "invalid_domain_message =
     ''Invalid email domain. Only @example.com and @connectingthedots.com are allowed.''"

text \<open>The handler. The event is printed first, so the console line is there whatever
  happens next; the first failing step ends the call with its exception.\<close>

definition lambda_handler :: "json \<Rightarrow> 'c \<Rightarrow> world \<Rightarrow> (error + json) \<times> world" where
  "lambda_handler event context w =
     (let w1 = print [Lit ''Event: '', JsonDumps event] w in
      case getitem event ''request'' of
        Inl e \<Rightarrow> (Inl e, w1)
      | Inr request \<Rightarrow>
      (case getitem request ''userAttributes'' of
        Inl e \<Rightarrow> (Inl e, w1)
      | Inr userAttributes \<Rightarrow>
      (case getitem userAttributes ''email'' of
        Inl e \<Rightarrow> (Inl e, w1)
      | Inr email \<Rightarrow>
      (case split_value email CHR ''@'' of
        Inl e \<Rightarrow> (Inl e, w1)
      | Inr pieces \<Rightarrow>
      (case index_list pieces 1 of
        Inl e \<Rightarrow> (Inl e, w1)
      | Inr domain \<Rightarrow>
          if domain \<notin> set allowed_domains
          then (Inl (Exception invalid_domain_message), w1)
          else (Inr event, w1))))))"

text \<open>The shape of a Cognito pre-signup event, reduced to the attribute the handler
  reads; used for concrete inputs.\<close>

definition signup_event :: "string \<Rightarrow> json" where
  "signup_event email =
     JObj [(''request'', JObj [(''userAttributes'', JObj [(''email'', JStr email)])])]"

section \<open>HTTP requests and responses\<close>

text \<open>The body of a response: a text returned by a view, or the JSON object built by
  \<open>jsonify\<close> (its pairs in the order of the source).\<close>

datatype body =
    Text string
  | Json "(string \<times> string) list"

text \<open>A response carries its body, its status and the headers the source sets; the
  headers the framework adds by itself are left out.\<close>

record response =
  body :: body
  status :: nat
  headers :: "string \<rightharpoonup> string"

text \<open>The routes of the repository name the methods GET (the default of \<open>app.route\<close>)
  and POST; a request is one of the two, with its path and its form fields.\<close>

datatype http_method = GET | POST

record request =
  verb :: http_method
  path :: string
  form :: "string \<rightharpoonup> string"

text \<open>\<open>jsonify(d)\<close> answers with status 200.\<close>

definition jsonify :: "(string \<times> string) list \<Rightarrow> response" where
  "jsonify d = \<lparr>body = Json d, status = 200, headers = Map.empty\<rparr>"

text \<open>A view that returns a string is answered with that text and status 200.\<close>

definition text_response :: "string \<Rightarrow> response" where
  "text_response s = \<lparr>body = Text s, status = 200, headers = Map.empty\<rparr>"

text \<open>\<open>make_response\<close> of a response object is that object.\<close>

definition make_response :: "response \<Rightarrow> response" where
  "make_response r = r"

text \<open>\<open>response.headers[k] = v\<close>.\<close>

definition set_header :: "response \<Rightarrow> string \<Rightarrow> string \<Rightarrow> response" where
  "set_header r k v = r\<lparr>headers := (headers r)(k \<mapsto> v)\<rparr>"

section \<open>The first attempt (first-attempt-flask-web-app/backend/app.py)\<close>

definition ping :: response where
  "ping =
     (let response = make_response (jsonify [(''status'', ''alive'')]);
          response = set_header response ''Access-Control-Allow-Origin'' ''*'';
          response = set_header response ''Access-Control-Allow-Methods'' ''GET, POST, OPTIONS'';
          response = set_header response ''Access-Control-Allow-Headers'' ''Content-Type''
      in response)"

text \<open>The route table of the first attempt: \<open>/ping\<close> is the only route registered.
  Lines 17 to 44 of the file, a \<open>submit_contact\<close> that would write the submission to
  DynamoDB, are comments: the application has no such route. A view that takes no
  argument does not see the world and leaves it as it is.\<close>

definition first_app :: "request \<Rightarrow> world \<Rightarrow> (error + response) \<times> world" where
  "first_app req w =
     (if path req = ''/ping''
      then (if verb req = GET then (Inr ping, w) else (Inl MethodNotAllowed, w))
      else (Inl NotFound, w))"

text \<open>Serving a sequence of requests, one after the other, on the world the previous
  one left.\<close>

fun serve :: "(request \<Rightarrow> world \<Rightarrow> (error + response) \<times> world) \<Rightarrow> request list \<Rightarrow> world
    \<Rightarrow> (error + response) list \<times> world" where
  "serve app [] w = ([], w)"
| "serve app (req # reqs) w =
     (case app req w of (r, w1) \<Rightarrow>
        (case serve app reqs w1 of (rs, w2) \<Rightarrow> (r # rs, w2)))"

section \<open>The second attempt (second-attempt-s3-web-app/backend/app.py)\<close>

definition index :: string where
  "index = ''Welcome to Connecting The Dots!''"

definition contact :: string where
  "contact = ''Contact Page''"

definition dashboard :: string where
  "dashboard = ''Dashboard Page''"

text \<open>\<open>request.form[k]\<close>: the value, or \<open>BadRequestKeyError\<close> for an absent key.\<close>

definition form_getitem :: "(string \<rightharpoonup> string) \<Rightarrow> string \<Rightarrow> error + string" where
  "form_getitem f k = (case f k of None \<Rightarrow> Inl (BadRequestKeyError k) | Some v \<Rightarrow> Inr v)"

text \<open>The four fields are read in the order of the source; the first absent one ends
  the call before anything is printed.\<close>

definition submit_contact :: "(string \<rightharpoonup> string) \<Rightarrow> world \<Rightarrow> (error + response) \<times> world" where
  "submit_contact f w =
     (case form_getitem f ''first_name'' of
        Inl e \<Rightarrow> (Inl e, w)
      | Inr first_name \<Rightarrow>
     (case form_getitem f ''last_name'' of
        Inl e \<Rightarrow> (Inl e, w)
      | Inr last_name \<Rightarrow>
     (case form_getitem f ''email'' of
        Inl e \<Rightarrow> (Inl e, w)
      | Inr email \<Rightarrow>
     (case form_getitem f ''message'' of
        Inl e \<Rightarrow> (Inl e, w)
      | Inr message \<Rightarrow>
         (let w1 = print [Lit (''Received contact form: '' @ first_name @ '' '' @ last_name
                               @ '', '' @ email @ '', '' @ message)] w
          in (Inr (jsonify [(''status'', ''success''),
                            (''message'', ''Form submitted successfully!'')]), w1))))))"

text \<open>The route table of the second attempt.\<close>

definition second_app :: "request \<Rightarrow> world \<Rightarrow> (error + response) \<times> world" where
  "second_app req w =
     (if path req = ''/''
      then (if verb req = GET then (Inr (text_response index), w)
            else (Inl MethodNotAllowed, w))
      else if path req = ''/contact''
      then (if verb req = GET then (Inr (text_response contact), w)
            else (Inl MethodNotAllowed, w))
      else if path req = ''/dashboard''
      then (if verb req = GET then (Inr (text_response dashboard), w)
            else (Inl MethodNotAllowed, w))
      else if path req = ''/submit_contact''
      then (if verb req = POST then submit_contact (form req) w
            else (Inl MethodNotAllowed, w))
      else (Inl NotFound, w))"

text \<open>Concrete inputs: the world before anything has happened, and the forms of the
  two scenarios of the specification.\<close>

definition world0 :: world where
  "world0 = \<lparr>console = [], put_calls = []\<rparr>"

definition ada_form :: "string \<rightharpoonup> string" where
  "ada_form = [''first_name'' \<mapsto> ''Ada'', ''last_name'' \<mapsto> ''Lovelace'',
               ''email'' \<mapsto> ''ada@example.com'', ''message'' \<mapsto> ''hello'']"

definition post_contact :: "(string \<rightharpoonup> string) \<Rightarrow> request" where
  "post_contact f = \<lparr>verb = POST, path = ''/submit_contact'', form = f\<rparr>"

text \<open>The first scenario without its message field.\<close>

definition ada_form_no_message :: "string \<rightharpoonup> string" where
  "ada_form_no_message = [''first_name'' \<mapsto> ''Ada'', ''last_name'' \<mapsto> ''Lovelace'',
                          ''email'' \<mapsto> ''ada@example.com'']"

text \<open>The second scenario (an empty first name), sent with a message field.\<close>

definition blank_first_name_form :: "string \<rightharpoonup> string" where
  "blank_first_name_form = [''first_name'' \<mapsto> [], ''last_name'' \<mapsto> ''Lovelace'',
                            ''email'' \<mapsto> ''ada@example.com'', ''message'' \<mapsto> ''hello'']"

text \<open>A form whose names and message are empty and whose email has no \<open>@\<close>.\<close>

definition unchecked_form :: "string \<rightharpoonup> string" where
  "unchecked_form = [''first_name'' \<mapsto> [], ''last_name'' \<mapsto> [],
                     ''email'' \<mapsto> ''ada'', ''message'' \<mapsto> []]"

section \<open>Facts about the pre-signup hook\<close>

lemma split_not_Nil: "split c s \<noteq> []"
  by (induction s) (auto split: list.splits)

lemma length_split: "length (split c s) = Suc (count_list s c)"
  by (induction s) (auto split: list.splits simp: split_not_Nil)

lemma count_list_pos: "0 < count_list s c \<longleftrightarrow> c \<in> set s"
  by (induction s) auto

lemma index_split_second:
  "(\<exists>d. index_list (split c s) 1 = Inr d) \<longleftrightarrow> c \<in> set s"
  by (simp add: index_list_def length_split count_list_pos)

lemma index_split_no_sep: "c \<notin> set s \<Longrightarrow> index_list (split c s) 1 = Inl IndexError"
  by (simp add: index_list_def length_split count_list_pos)

text \<open>The handler on an event that carries the email \<open>e\<close>: everything is decided by
  the second piece of \<open>e\<close>.\<close>

lemma lambda_handler_email:
  assumes "getitem event ''request'' = Inr r"
    and "getitem r ''userAttributes'' = Inr a"
    and "getitem a ''email'' = Inr (JStr e)"
  shows "lambda_handler event ctx w =
     ((case index_list (split CHR ''@'' e) 1 of
         Inl x \<Rightarrow> Inl x
       | Inr d \<Rightarrow> if d \<notin> set allowed_domains
                 then Inl (Exception invalid_domain_message) else Inr event),
      print [Lit ''Event: '', JsonDumps event] w)"
  using assms by (simp add: lambda_handler_def split_value_def split: sum.splits)

lemma getitem_signup_event:
  "getitem (signup_event e) ''request'' = Inr (JObj [(''userAttributes'', JObj [(''email'', JStr e)])])"
  "getitem (JObj [(''userAttributes'', JObj [(''email'', JStr e)])]) ''userAttributes''
     = Inr (JObj [(''email'', JStr e)])"
  "getitem (JObj [(''email'', JStr e)]) ''email'' = Inr (JStr e)"
  by (simp_all add: getitem_def signup_event_def)








text \<open>
  C9. The pre-check is partial: on an event whose email has no \<open>@\<close> the indexing
  \<open>email.split('@')[1]\<close> raises IndexError, after the event has been printed and
  before the allow-list is looked at; so the handler ends by returning the event or by
  the invalid-domain exception only for an email that contains \<open>@\<close>.
\<close>

theorem lambda_handler_needs_at:
  assumes "getitem event ''request'' = Inr r"
    and "getitem r ''userAttributes'' = Inr a"
    and "getitem a ''email'' = Inr (JStr e)"
  shows "(CHR ''@'' \<notin> set e \<longrightarrow>
            lambda_handler event ctx w
              = (Inl IndexError, print [Lit ''Event: '', JsonDumps event] w))
       \<and> (fst (lambda_handler event ctx w) = Inr event
            \<or> fst (lambda_handler event ctx w) = Inl (Exception invalid_domain_message)
          \<longrightarrow> CHR ''@'' \<in> set e)"
proof -
  have general: "lambda_handler event ctx w =
     ((case index_list (split CHR ''@'' e) 1 of
         Inl x \<Rightarrow> Inl x
       | Inr d \<Rightarrow> if d \<notin> set allowed_domains
                 then Inl (Exception invalid_domain_message) else Inr event),
      print [Lit ''Event: '', JsonDumps event] w)"
    by (rule lambda_handler_email [OF assms])
  have missing: "CHR ''@'' \<notin> set e \<Longrightarrow>
      lambda_handler event ctx w
        = (Inl IndexError, print [Lit ''Event: '', JsonDumps event] w)"
    unfolding general using index_split_no_sep [of "CHR ''@''" e] by simp
  have present: "fst (lambda_handler event ctx w) = Inr event
        \<or> fst (lambda_handler event ctx w) = Inl (Exception invalid_domain_message)
      \<Longrightarrow> CHR ''@'' \<in> set e"
  proof (rule ccontr)
    assume outcome: "fst (lambda_handler event ctx w) = Inr event
        \<or> fst (lambda_handler event ctx w) = Inl (Exception invalid_domain_message)"
    assume "CHR ''@'' \<notin> set e"
    then have "fst (lambda_handler event ctx w) = Inl IndexError"
      using missing by simp
    with outcome show False by simp
  qed
  from missing present show ?thesis by blast
qed

theorem lambda_handler_needs_at_witness:
  "CHR ''@'' \<notin> set ''user.example.com''
   \<and> lambda_handler (signup_event ''user.example.com'') () world0
       = (Inl IndexError,
          print [Lit ''Event: '', JsonDumps (signup_event ''user.example.com'')] world0)
   \<and> fst (lambda_handler (signup_event ''user@example.com'') () world0)
       = Inr (signup_event ''user@example.com'')
   \<and> CHR ''@'' \<in> set ''user@example.com''"
proof -
  have absent: "CHR ''@'' \<notin> set ''user.example.com''"
    by simp
  have returned: "fst (lambda_handler (signup_event ''user@example.com'') () world0)
      = Inr (signup_event ''user@example.com'')"
    by (simp add: lambda_handler_email [OF getitem_signup_event]
          index_list_def allowed_domains_def)
  show ?thesis
    using absent returned
      lambda_handler_needs_at [OF getitem_signup_event, of "''user.example.com''" "()" world0]
      lambda_handler_needs_at [OF getitem_signup_event, of "''user@example.com''" "()" world0]
    by blast
qed

text \<open>
  C10. When the pre-check lets a sign-up through (the domain is in the allow-list), the
  value it returns is the event it was given, with nothing added, removed or changed;
  and whenever the handler returns at all, it returns that event.
\<close>

theorem lambda_handler_returns_event:
  "(getitem event ''request'' = Inr r0 \<and> getitem r0 ''userAttributes'' = Inr a
      \<and> getitem a ''email'' = Inr (JStr e)
      \<and> index_list (split CHR ''@'' e) 1 = Inr d \<and> d \<in> set allowed_domains
     \<longrightarrow> fst (lambda_handler event ctx w) = Inr event)
   \<and> (fst (lambda_handler event ctx w) = Inr r \<longrightarrow> r = event)"
proof -
  have allowed: "fst (lambda_handler event ctx w) = Inr event"
    if "getitem event ''request'' = Inr r0" "getitem r0 ''userAttributes'' = Inr a"
      "getitem a ''email'' = Inr (JStr e)"
      "index_list (split CHR ''@'' e) 1 = Inr d" "d \<in> set allowed_domains"
    using that by (simp add: lambda_handler_email [OF that(1-3)])
  have same: "r = event" if "fst (lambda_handler event ctx w) = Inr r"
    using that
    by (auto simp: lambda_handler_def Let_def split: sum.splits if_splits)
  from allowed same show ?thesis by blast
qed

text \<open>A sign-up event with more in it than the handler reads.\<close>

theorem lambda_handler_returns_event_witness:
  "fst (lambda_handler
      (JObj [(''version'', JStr ''1''),
             (''userName'', JStr ''ada''),
             (''request'', JObj [(''userAttributes'',
                JObj [(''name'', JStr ''Ada Lovelace''), (''email'', JStr ''ada@example.com'')]),
                (''validationData'', JNull)]),
             (''response'', JObj [(''autoConfirmUser'', JBool False)])]) () world0)
   = Inr (JObj [(''version'', JStr ''1''),
             (''userName'', JStr ''ada''),
             (''request'', JObj [(''userAttributes'',
                JObj [(''name'', JStr ''Ada Lovelace''), (''email'', JStr ''ada@example.com'')]),
                (''validationData'', JNull)]),
             (''response'', JObj [(''autoConfirmUser'', JBool False)])])"
proof -
  have lookups: "getitem (JObj [(''version'', JStr ''1''),
             (''userName'', JStr ''ada''),
             (''request'', JObj [(''userAttributes'',
                JObj [(''name'', JStr ''Ada Lovelace''), (''email'', JStr ''ada@example.com'')]),
                (''validationData'', JNull)]),
             (''response'', JObj [(''autoConfirmUser'', JBool False)])]) ''request''
        = Inr (JObj [(''userAttributes'',
                JObj [(''name'', JStr ''Ada Lovelace''), (''email'', JStr ''ada@example.com'')]),
                (''validationData'', JNull)])
      \<and> getitem (JObj [(''userAttributes'',
                JObj [(''name'', JStr ''Ada Lovelace''), (''email'', JStr ''ada@example.com'')]),
                (''validationData'', JNull)]) ''userAttributes''
        = Inr (JObj [(''name'', JStr ''Ada Lovelace''), (''email'', JStr ''ada@example.com'')])
      \<and> getitem (JObj [(''name'', JStr ''Ada Lovelace''), (''email'', JStr ''ada@example.com'')])
            ''email''
        = Inr (JStr ''ada@example.com'')
      \<and> index_list (split CHR ''@'' ''ada@example.com'') 1 = Inr ''example.com''
      \<and> ''example.com'' \<in> set allowed_domains"
    by (simp add: getitem_def index_list_def allowed_domains_def)
  show ?thesis
    using lookups lambda_handler_returns_event [where ctx = "()" and w = world0]
    by blast
qed

section \<open>Facts about the first attempt\<close>

lemma first_app_world: "snd (first_app req w) = w"
  by (simp add: first_app_def)

lemma snd_serve_Cons:
  "snd (serve app (req # reqs) w) = snd (serve app reqs (snd (app req w)))"
  by (simp split: prod.splits)

lemma serve_first_app_world: "snd (serve first_app reqs w) = w"
proof (induction reqs arbitrary: w)
  case Nil
  show ?case by simp
next
  case (Cons req reqs)
  have "snd (serve first_app (req # reqs) w) = snd (serve first_app reqs w)"
    by (simp only: snd_serve_Cons first_app_world)
  then show ?case
    using Cons.IH by simp
qed

lemma serve_snoc:
  "serve app (reqs @ [req]) w =
     (fst (serve app reqs w) @ [fst (app req (snd (serve app reqs w)))],
      snd (app req (snd (serve app reqs w))))"
  by (induction reqs arbitrary: w) (auto split: prod.splits)

lemma ping_fields:
  "body ping = Json [(''status'', ''alive'')]"
  "status ping = 200"
  "headers ping ''Access-Control-Allow-Origin'' = Some ''*''"
  by (simp_all add: ping_def make_response_def jsonify_def set_header_def)

text \<open>
  C5. Whatever requests were served before and whatever world they left, GET /ping
  succeeds with the JSON body \<open>{"status": "alive"}\<close>, status 200 and the header
  \<open>Access-Control-Allow-Origin: *\<close>, and it leaves the world (console and storage calls)
  as it was.
\<close>

theorem ping_alive:
  "last (fst (serve first_app (history @ [\<lparr>verb = GET, path = ''/ping'', form = f\<rparr>]) w))
     = Inr ping
   \<and> snd (serve first_app (history @ [\<lparr>verb = GET, path = ''/ping'', form = f\<rparr>]) w) = w
   \<and> first_app \<lparr>verb = GET, path = ''/ping'', form = f\<rparr> w = (Inr ping, w)
   \<and> body ping = Json [(''status'', ''alive'')]
   \<and> status ping = 200
   \<and> headers ping ''Access-Control-Allow-Origin'' = Some ''*''"
proof -
  have one: "first_app \<lparr>verb = GET, path = ''/ping'', form = f\<rparr> w1 = (Inr ping, w1)" for w1
    by (simp add: first_app_def)
  have answer: "last (fst (serve first_app
      (history @ [\<lparr>verb = GET, path = ''/ping'', form = f\<rparr>]) w)) = Inr ping"
    by (simp add: serve_snoc one)
  have world: "snd (serve first_app
      (history @ [\<lparr>verb = GET, path = ''/ping'', form = f\<rparr>]) w) = w"
    by (rule serve_first_app_world)
  from answer world one ping_fields show ?thesis by simp
qed

section \<open>Facts about the second attempt\<close>

text \<open>
  C6. Each static page is a fixed text: GET / answers
  \<open>Welcome to Connecting The Dots!\<close>, GET /contact answers \<open>Contact Page\<close> and
  GET /dashboard answers \<open>Dashboard Page\<close>, whatever the form of the request and
  whatever world earlier requests left, and the world is not touched.
\<close>

theorem static_pages:
  "second_app \<lparr>verb = GET, path = ''/'', form = f\<rparr> w
     = (Inr (text_response ''Welcome to Connecting The Dots!''), w)
   \<and> second_app \<lparr>verb = GET, path = ''/contact'', form = f\<rparr> w
     = (Inr (text_response ''Contact Page''), w)
   \<and> second_app \<lparr>verb = GET, path = ''/dashboard'', form = f\<rparr> w
     = (Inr (text_response ''Dashboard Page''), w)
   \<and> body (text_response ''Contact Page'') = Text ''Contact Page''
   \<and> status (text_response ''Contact Page'') = 200"
  by (simp add: second_app_def index_def contact_def dashboard_def text_response_def)

lemma second_app_post_contact: "second_app (post_contact f) w = submit_contact f w"
  by (simp add: second_app_def post_contact_def)

text \<open>The contact route, by the fields the form has.\<close>

lemma submit_contact_no_first_name:
  "f ''first_name'' = None \<Longrightarrow> submit_contact f w = (Inl (BadRequestKeyError ''first_name''), w)"
  by (simp add: submit_contact_def form_getitem_def)

lemma submit_contact_no_last_name:
  "f ''first_name'' = Some a \<Longrightarrow> f ''last_name'' = None
     \<Longrightarrow> submit_contact f w = (Inl (BadRequestKeyError ''last_name''), w)"
  by (simp add: submit_contact_def form_getitem_def)

lemma submit_contact_no_email:
  "f ''first_name'' = Some a \<Longrightarrow> f ''last_name'' = Some b \<Longrightarrow> f ''email'' = None
     \<Longrightarrow> submit_contact f w = (Inl (BadRequestKeyError ''email''), w)"
  by (simp add: submit_contact_def form_getitem_def)

lemma submit_contact_no_message:
  "f ''first_name'' = Some a \<Longrightarrow> f ''last_name'' = Some b \<Longrightarrow> f ''email'' = Some c
     \<Longrightarrow> f ''message'' = None
     \<Longrightarrow> submit_contact f w = (Inl (BadRequestKeyError ''message''), w)"
  by (simp add: submit_contact_def form_getitem_def)

lemma submit_contact_all_fields:
  "f ''first_name'' = Some a \<Longrightarrow> f ''last_name'' = Some b \<Longrightarrow> f ''email'' = Some c
     \<Longrightarrow> f ''message'' = Some d
     \<Longrightarrow> submit_contact f w =
          (Inr (jsonify [(''status'', ''success''),
                         (''message'', ''Form submitted successfully!'')]),
           print [Lit (''Received contact form: '' @ a @ '' '' @ b @ '', '' @ c @ '', '' @ d)] w)"
  by (simp add: submit_contact_def form_getitem_def)

lemma print_fields:
  "console (print args w) = console w @ [args]"
  "put_calls (print args w) = put_calls w"
  by (simp_all add: print_def)

text \<open>
  C1, as the code has it. When first_name, last_name or email is absent from the form
  of a POST /submit_contact, the route leaves with \<open>BadRequestKeyError\<close> (an HTTP 400
  exception) for the first absent one of the three, in that order; nothing is printed
  and no storage call is made.
\<close>

theorem submit_contact_absent_field:
  assumes "f ''first_name'' = None \<or> f ''last_name'' = None \<or> f ''email'' = None"
  shows "second_app (post_contact f) w
           = (Inl (BadRequestKeyError
                (if f ''first_name'' = None then ''first_name''
                 else if f ''last_name'' = None then ''last_name'' else ''email'')), w)
       \<and> code (BadRequestKeyError
                (if f ''first_name'' = None then ''first_name''
                 else if f ''last_name'' = None then ''last_name'' else ''email'')) = Some 400"
proof (cases "f ''first_name''")
  case None
  then show ?thesis
    by (simp add: second_app_post_contact submit_contact_no_first_name)
next
  case first: (Some a)
  show ?thesis
  proof (cases "f ''last_name''")
    case None
    with first show ?thesis
      by (simp add: second_app_post_contact submit_contact_no_last_name)
  next
    case last: (Some b)
    with first assms have "f ''email'' = None" by simp
    with first last show ?thesis
      by (simp add: second_app_post_contact submit_contact_no_email)
  qed
qed

theorem submit_contact_absent_field_witness:
  "second_app (post_contact [''first_name'' \<mapsto> ''Ada'', ''email'' \<mapsto> ''ada@example.com''])
      world0
     = (Inl (BadRequestKeyError ''last_name''), world0)"
  using submit_contact_absent_field
    [of "[''first_name'' \<mapsto> ''Ada'', ''email'' \<mapsto> ''ada@example.com'']" world0]
  by simp

text \<open>C1, as the specification states it, fails: a first name that is present and empty is
  accepted.\<close>

theorem submit_contact_blank_first_name_counterexample:
  "fst (second_app (post_contact blank_first_name_form) world0)
     = Inr (jsonify [(''status'', ''success''), (''message'', ''Form submitted successfully!'')])"
  by (simp add: second_app_post_contact blank_first_name_form_def
        submit_contact_all_fields [where a = "[]" and b = "''Lovelace''"
          and c = "''ada@example.com''" and d = "''hello''"])

text \<open>
  C2, as the code has it. When the form of a POST /submit_contact has the fields
  first_name, last_name, email and message, the route answers with the success payload
  and status 200, prints one console line made of the four values, and makes no storage
  call.
\<close>

theorem submit_contact_success:
  assumes "f ''first_name'' = Some a" and "f ''last_name'' = Some b"
    and "f ''email'' = Some c" and "f ''message'' = Some d"
  shows "fst (second_app (post_contact f) w)
           = Inr (jsonify [(''status'', ''success''),
                           (''message'', ''Form submitted successfully!'')])
       \<and> status (jsonify [(''status'', ''success''),
                           (''message'', ''Form submitted successfully!'')]) = 200
       \<and> console (snd (second_app (post_contact f) w))
           = console w @ [[Lit (''Received contact form: '' @ a @ '' '' @ b @ '', '' @ c
                                 @ '', '' @ d)]]
       \<and> put_calls (snd (second_app (post_contact f) w)) = put_calls w"
  by (simp add: second_app_post_contact submit_contact_all_fields [OF assms]
        print_fields jsonify_def)

theorem submit_contact_success_witness:
  "fst (second_app (post_contact ada_form) world0)
     = Inr (jsonify [(''status'', ''success''), (''message'', ''Form submitted successfully!'')])
   \<and> console (snd (second_app (post_contact ada_form) world0))
     = [[Lit ''Received contact form: Ada Lovelace, ada@example.com, hello'']]"
  using submit_contact_success [of ada_form "''Ada''" "''Lovelace''" "''ada@example.com''"
      "''hello''" world0]
  by (simp add: ada_form_def world0_def)

text \<open>C2, as the specification states it, fails twice: without a message field the scenario's
  submission is not accepted, and with it the submission is accepted but no storage call
  is made.\<close>

theorem submit_contact_storage_counterexample:
  "fst (second_app (post_contact ada_form_no_message) world0)
     = Inl (BadRequestKeyError ''message'')
   \<and> fst (second_app (post_contact ada_form) world0)
     = Inr (jsonify [(''status'', ''success''), (''message'', ''Form submitted successfully!'')])
   \<and> put_calls (snd (second_app (post_contact ada_form) world0)) = []"
proof -
  have without: "fst (second_app (post_contact ada_form_no_message) world0)
      = Inl (BadRequestKeyError ''message'')"
    by (simp add: second_app_post_contact ada_form_no_message_def
          submit_contact_no_message [where a = "''Ada''" and b = "''Lovelace''"
            and c = "''ada@example.com''"])
  have run: "second_app (post_contact ada_form) world0
      = (Inr (jsonify [(''status'', ''success''), (''message'', ''Form submitted successfully!'')]),
         print [Lit (''Received contact form: '' @ ''Ada'' @ '' '' @ ''Lovelace'' @ '', ''
                     @ ''ada@example.com'' @ '', '' @ ''hello'')] world0)"
    by (simp add: second_app_post_contact ada_form_def
          submit_contact_all_fields [where a = "''Ada''" and b = "''Lovelace''"
            and c = "''ada@example.com''" and d = "''hello''"])
  show ?thesis
    unfolding run using without by (simp add: print_fields world0_def)
qed

text \<open>
  C3, as the code has it. A submission is accepted exactly when the form has the four
  fields first_name, last_name, email and message; so it is accepted only if the three
  required fields are present. Their values are not looked at.
\<close>

theorem submit_contact_accepted_iff:
  "(\<exists>r. fst (second_app (post_contact f) w) = Inr r)
     \<longleftrightarrow> f ''first_name'' \<noteq> None \<and> f ''last_name'' \<noteq> None
         \<and> f ''email'' \<noteq> None \<and> f ''message'' \<noteq> None"
proof (cases "f ''first_name''")
  case None
  then show ?thesis
    by (simp add: second_app_post_contact submit_contact_no_first_name)
next
  case first: (Some a)
  show ?thesis
  proof (cases "f ''last_name''")
    case None
    with first show ?thesis
      by (simp add: second_app_post_contact submit_contact_no_last_name)
  next
    case last: (Some b)
    show ?thesis
    proof (cases "f ''email''")
      case None
      with first last show ?thesis
        by (simp add: second_app_post_contact submit_contact_no_email)
    next
      case email: (Some c)
      show ?thesis
      proof (cases "f ''message''")
        case None
        with first last email show ?thesis
          by (simp add: second_app_post_contact submit_contact_no_message)
      next
        case (Some d)
        with first last email show ?thesis
          by (simp add: second_app_post_contact submit_contact_all_fields)
      qed
    qed
  qed
qed

theorem submit_contact_accepted_iff_witness:
  "(\<exists>r. fst (second_app (post_contact ada_form) world0) = Inr r)
   \<and> \<not> (\<exists>r. fst (second_app (post_contact ada_form_no_message) world0) = Inr r)"
  using submit_contact_accepted_iff [of ada_form world0]
    submit_contact_accepted_iff [of ada_form_no_message world0]
  by (simp add: ada_form_def ada_form_no_message_def)

text \<open>C3, as the specification states it, fails: empty names and an email without a domain part
  are accepted.\<close>

theorem submit_contact_unchecked_counterexample:
  "unchecked_form ''first_name'' = Some []
   \<and> unchecked_form ''email'' = Some ''ada''
   \<and> CHR ''@'' \<notin> set ''ada''
   \<and> fst (second_app (post_contact unchecked_form) world0)
       = Inr (jsonify [(''status'', ''success''), (''message'', ''Form submitted successfully!'')])"
  by (simp add: second_app_post_contact unchecked_form_def
        submit_contact_all_fields [where a = "[]" and b = "[]" and c = "''ada''" and d = "[]"])

text \<open>
  C8. A POST /submit_contact whose form has no message field is not accepted: the route
  leaves with \<open>BadRequestKeyError\<close> and prints nothing; when first_name, last_name and
  email are all there, the error names message.
\<close>

theorem submit_contact_message_required:
  assumes "f ''message'' = None"
  shows "(\<exists>k. second_app (post_contact f) w = (Inl (BadRequestKeyError k), w))
       \<and> (f ''first_name'' \<noteq> None \<and> f ''last_name'' \<noteq> None \<and> f ''email'' \<noteq> None
            \<longrightarrow> second_app (post_contact f) w = (Inl (BadRequestKeyError ''message''), w))"
proof (cases "f ''first_name''")
  case None
  then show ?thesis
    by (simp add: second_app_post_contact submit_contact_no_first_name)
next
  case first: (Some a)
  show ?thesis
  proof (cases "f ''last_name''")
    case None
    with first show ?thesis
      by (simp add: second_app_post_contact submit_contact_no_last_name)
  next
    case last: (Some b)
    show ?thesis
    proof (cases "f ''email''")
      case None
      with first last show ?thesis
        by (simp add: second_app_post_contact submit_contact_no_email)
    next
      case (Some c)
      with first last assms show ?thesis
        by (simp add: second_app_post_contact submit_contact_no_message)
    qed
  qed
qed

theorem submit_contact_message_required_witness:
  "ada_form_no_message ''message'' = None
   \<and> second_app (post_contact ada_form_no_message) world0
       = (Inl (BadRequestKeyError ''message''), world0)"
  using submit_contact_message_required [of ada_form_no_message world0]
  by (simp add: ada_form_no_message_def)

section \<open>Storage calls\<close>

text \<open>No request reaches a storage call. The first attempt has no contact route at all,
  and the contact route of the second attempt only prints.\<close>

lemma first_app_no_contact_route: "first_app (post_contact f) w = (Inl NotFound, w)"
  by (simp add: first_app_def post_contact_def)

lemma submit_contact_put_calls: "put_calls (snd (submit_contact f w)) = put_calls w"
  by (simp add: submit_contact_def form_getitem_def print_fields split: option.splits)

lemma second_app_put_calls: "put_calls (snd (second_app req w)) = put_calls w"
  by (simp add: second_app_def submit_contact_put_calls)

lemma serve_second_app_put_calls: "put_calls (snd (serve second_app reqs w)) = put_calls w"
proof (induction reqs arbitrary: w)
  case Nil
  show ?case by simp
next
  case (Cons req reqs)
  have "put_calls (snd (serve second_app (req # reqs) w))
      = put_calls (snd (second_app req w))"
    by (simp only: snd_serve_Cons Cons.IH)
  then show ?case
    by (simp add: second_app_put_calls)
qed

end
